theory Spec2Isabelle
  imports Complex_Main
begin

section \<open>JavaScript values\<close>

text \<open>
  Payloads arriving over the socket, completions returned by the two provider SDKs and
  thrown values are JSON-like JavaScript values. Numbers are modelled by integers: the
  program only tests a number for truthiness and for strict equality with 429, and the
  millisecond clock of \<open>Date.now()\<close> is an integer far below \<open>2^53\<close>. Strings are
  sequences of code units below 256.
\<close>

datatype jsval =
    JUndefined
  | JNull
  | JBool bool
  | JNum int
  | JStr string
  | JArr "jsval list"
  | JObj "(string \<times> jsval) list"

text \<open>ToBoolean: what \<open>if (v)\<close>, \<open>!v\<close>, \<open>a && b\<close> and \<open>a || b\<close> test.\<close>

fun truthy :: "jsval \<Rightarrow> bool" where
  "truthy JUndefined = False"
| "truthy JNull = False"
| "truthy (JBool b) = b"
| "truthy (JNum n) = (n \<noteq> 0)"
| "truthy (JStr s) = (s \<noteq> [])"
| "truthy (JArr xs) = True"
| "truthy (JObj kvs) = True"

fun nullish :: "jsval \<Rightarrow> bool" where
  "nullish JUndefined = True"
| "nullish JNull = True"
| "nullish v = False"

text \<open>\<open>typeof v === 'object'\<close>: true of \<open>null\<close>, of arrays and of plain objects.\<close>

fun typeof_object :: "jsval \<Rightarrow> bool" where
  "typeof_object JNull = True"
| "typeof_object (JArr xs) = True"
| "typeof_object (JObj kvs) = True"
| "typeof_object v = False"

text \<open>
  A thrown \<open>Error\<close> or \<open>TypeError\<close> is an object whose only property the program reads
  is \<open>message\<close>. The texts of the engine's own TypeErrors are those of V8.
\<close>

definition new_Error :: "string \<Rightarrow> jsval" where
  "new_Error msg = JObj [(''message'', JStr msg)]"

definition show_nullish :: "jsval \<Rightarrow> string" where
  "show_nullish v = (if v = JNull then ''null'' else ''undefined'')"

definition cannot_read :: "jsval \<Rightarrow> string \<Rightarrow> jsval" where
  "cannot_read base key =
     new_Error (''Cannot read properties of '' @ show_nullish base @ '' (reading '' @
                [CHR 0x27] @ key @ [CHR 0x27] @ '')'')"

function dec :: "nat \<Rightarrow> string" where
  "dec n = (if n < 10 then [char_of (48 + n)] else dec (n div 10) @ [char_of (48 + n mod 10)])"
  by pat_completeness auto
termination
  by (relation "measure (\<lambda>n. n)") auto

text \<open>
  \<open>v.name\<close> for a property name that is neither an array index nor a member of a
  built-in prototype; every name the program reads (\<open>final\<close>, \<open>model\<close>, \<open>choices\<close>,
  \<open>message\<close>, \<open>content\<close>, \<open>response\<close>, \<open>status\<close>, \<open>code\<close>) is of that kind. Reading a
  property of \<open>undefined\<close> or \<open>null\<close> throws (\<open>Inl\<close>).
\<close>

fun get_prop :: "jsval \<Rightarrow> string \<Rightarrow> jsval + jsval" where
  "get_prop JUndefined name = Inl (cannot_read JUndefined name)"
| "get_prop JNull name = Inl (cannot_read JNull name)"
| "get_prop (JObj kvs) name = Inr (case map_of kvs name of None \<Rightarrow> JUndefined | Some v \<Rightarrow> v)"
| "get_prop (JArr xs) name = Inr (if name = ''length'' then JNum (int (length xs)) else JUndefined)"
| "get_prop (JStr s) name = Inr (if name = ''length'' then JNum (int (length s)) else JUndefined)"
| "get_prop v name = Inr JUndefined"

text \<open>\<open>v[i]\<close> for a non-negative integer index.\<close>

fun at_index :: "jsval \<Rightarrow> nat \<Rightarrow> jsval + jsval" where
  "at_index JUndefined i = Inl (cannot_read JUndefined (dec i))"
| "at_index JNull i = Inl (cannot_read JNull (dec i))"
| "at_index (JArr xs) i = Inr (if i < length xs then xs ! i else JUndefined)"
| "at_index (JStr s) i = Inr (if i < length s then JStr [s ! i] else JUndefined)"
| "at_index (JObj kvs) i = Inr (case map_of kvs (dec i) of None \<Rightarrow> JUndefined | Some v \<Rightarrow> v)"
| "at_index v i = Inr JUndefined"

text \<open>\<open>String.prototype.trim\<close>: white space and line terminators below code unit 256.\<close>

definition is_ws :: "char \<Rightarrow> bool" where
  "is_ws c = (of_char c \<in> {9, 10, 11, 12, 13, 32, 160 :: nat})"

definition trim :: "string \<Rightarrow> string" where
  "trim s = rev (dropWhile is_ws (rev (dropWhile is_ws s)))"

section \<open>The context store\<close>

record turn =
  role :: string
  content :: string
  timestamp :: "int option"

text \<open>
  The value kept under a connection id in \<open>userContexts\<close> is the array of turns, or, once
  \<open>load-context\<close> has run, the plain object \<open>{...existingContext, userPreferences}\<close>: the
  array's elements copied under their indices, and the saved payload.
\<close>

datatype user_context = Arr "turn list" | Obj "turn list" jsval

type_synonym sid = string
type_synonym store = "sid \<rightharpoonup> user_context"

definition system_prompt :: string where
  "system_prompt =
     ''You are Jinny, a warm and perceptive AI companion. Engage naturally as if in person, using conversational gestures and expressions. Keep responses concise yet meaningful.'' @ [CHR 0x0A] @
     '''' @ [CHR 0x0A] @
     ''            Key traits:'' @ [CHR 0x0A] @
     ''            - Speak naturally, as in a real conversation'' @ [CHR 0x0A] @
     ''            - Show understanding through verbal gestures'' @ [CHR 0x0A] @
     ''            - Build on previous context'' @ [CHR 0x0A] @
     ''            - Guide users to related topics'' @ [CHR 0x0A] @
     ''            - Adapt tone to match the user'' @ [CHR 0x0A] @
     '''' @ [CHR 0x0A] @
     ''            Interaction style:'' @ [CHR 0x0A] @
     ''            - Start with brief acknowledgment'' @ [CHR 0x0A] @
     ''            - Give clear, focused responses'' @ [CHR 0x0A] @
     ''            - End with relevant follow-up suggestions'' @ [CHR 0x0A] @
     ''            - Remember key details about the user'' @ [CHR 0x0A] @
     ''            - Keep technical terms simple unless user shows expertise'' @ [CHR 0x0A] @
     '''' @ [CHR 0x0A] @
     ''            Example format: You might also be interested in [related topic] - would you like to explore that?'' @ [CHR 0x0A] @
     '''' @ [CHR 0x0A] @
     ''            Remember: Focus on building rapport while being efficient with language. Suggest 1-2 relevant follow-ups based on user'' @ [CHR 0x27] @ ''s interests and previous conversations.''"

definition system_turn :: turn where
  "system_turn = \<lparr>role = ''system'', content = system_prompt, timestamp = None\<rparr>"

text \<open>\<open>xs.splice(start, deleteCount)\<close> with \<open>start \<le> xs.length\<close>: the array afterwards.\<close>

definition splice :: "'a list \<Rightarrow> nat \<Rightarrow> nat \<Rightarrow> 'a list" where
  "splice xs start deleteCount = take start xs @ drop (start + deleteCount) xs"

text \<open>
  \<open>manageConversationHistory(userId, message, role)\<close> at clock reading \<open>now\<close>: the returned
  array (which is the stored one) and the store afterwards, or the TypeError of calling
  \<open>push\<close> on the merged object, which leaves the store as it was.
\<close>

definition manageConversationHistory ::
  "sid \<Rightarrow> string \<Rightarrow> string \<Rightarrow> int \<Rightarrow> store \<Rightarrow> jsval + (turn list \<times> store)" where
  "manageConversationHistory userId message role' now s =
     (case (case s userId of None \<Rightarrow> Arr [system_turn] | Some c \<Rightarrow> c) of
        Obj ts prefs \<Rightarrow> Inl (new_Error ''context.push is not a function'')
      | Arr context \<Rightarrow>
          (let messageWithTime = \<lparr>role = role', content = message, timestamp = Some now\<rparr>;
               pushed = context @ [messageWithTime];
               trimmed = (if length pushed > 11
                          then splice pushed 1 (length pushed - 11) else pushed)
           in Inr (trimmed, s(userId \<mapsto> Arr trimmed))))"

text \<open>A sequence of appends for one connection: role, content and clock reading of each.\<close>

fun appends :: "sid \<Rightarrow> (string \<times> string \<times> int) list \<Rightarrow> store \<Rightarrow> jsval + store" where
  "appends userId [] s = Inr s"
| "appends userId ((r, m, now) # rest) s =
     (case manageConversationHistory userId m r now s of
        Inl e \<Rightarrow> Inl e
      | Inr (ctx, s') \<Rightarrow> appends userId rest s')"

definition mk_turn :: "string \<times> string \<times> int \<Rightarrow> turn" where
  "mk_turn a = (case a of (r, m, now) \<Rightarrow> \<lparr>role = r, content = m, timestamp = Some now\<rparr>)"

text \<open>
  The hourly sweep. \<open>context[context.length - 1]\<close> is \<open>undefined\<close> for an empty array and
  for the merged object (whose \<open>length\<close> is \<open>undefined\<close>); a turn without \<open>timestamp\<close>
  makes the difference \<open>NaN\<close>, and \<open>NaN > hour\<close> is false.
\<close>

definition stale :: "int \<Rightarrow> user_context \<Rightarrow> bool" where
  "stale now c =
     (case c of
        Obj ts prefs \<Rightarrow> False
      | Arr context \<Rightarrow>
          (if context = [] then False
           else (case timestamp (last context) of
                   None \<Rightarrow> False
                 | Some t \<Rightarrow> now - t > 3600000)))"

definition sweep :: "int \<Rightarrow> store \<Rightarrow> store" where
  "sweep now s =
     (\<lambda>userId. case s userId of
                  None \<Rightarrow> None
                | Some c \<Rightarrow> if stale now c then None else Some c)"

section \<open>Model configurations\<close>

record model_config =
  provider :: string
  maxTokens :: nat
  temperature :: rat

definition AI_MODELS :: "(string \<times> model_config) list" where
  "AI_MODELS =
     [(''gpt-3.5-turbo-16k'', \<lparr>provider = ''openai'', maxTokens = 700, temperature = 7 / 10\<rparr>),
      (''llama-3.1-70b-versatile'', \<lparr>provider = ''groq'', maxTokens = 1024, temperature = 1\<rparr>)]"

text \<open>
  \<open>AI_MODELS[selectedModel]\<close> converts the key to a string. \<open>AI_MODELS\<close> is a plain object,
  so the names of \<open>Object.prototype\<close> are found too: their values are functions (or the
  prototype itself), objects without \<open>provider\<close>, \<open>temperature\<close> or \<open>maxTokens\<close>.
  Integers are printed in decimal, which is what the engine prints below \<open>10^21\<close>; above, it
  prints an exponent form, which is no name of either table as well. An array is printed
  by joining its elements, \<open>null\<close> and \<open>undefined\<close> as the empty string. A plain object is
  printed by \<open>Object.prototype.toString\<close>, unless the payload gave it a \<open>toString\<close> key of
  its own: that value is no function, \<open>valueOf\<close> returns the object, and the conversion
  throws.
\<close>

fun join_comma :: "string list \<Rightarrow> string" where
  "join_comma [] = []"
| "join_comma [x] = x"
| "join_comma (x # y # ys) = x @ '','' @ join_comma (y # ys)"

fun js_toString :: "jsval \<Rightarrow> jsval + string"
  and elements_toString :: "jsval list \<Rightarrow> jsval + string list" where
  "js_toString JUndefined = Inr ''undefined''"
| "js_toString JNull = Inr ''null''"
| "js_toString (JBool b) = Inr (if b then ''true'' else ''false'')"
| "js_toString (JNum n) = Inr (if n < 0 then ''-'' @ dec (nat (- n)) else dec (nat n))"
| "js_toString (JStr s) = Inr s"
| "js_toString (JArr xs) =
     (case elements_toString xs of Inl e \<Rightarrow> Inl e | Inr strs \<Rightarrow> Inr (join_comma strs))"
| "js_toString (JObj kvs) =
     (if List.member (map fst kvs) ''toString''
      then Inl (new_Error ''Cannot convert object to primitive value'')
      else Inr ''[object Object]'')"
| "elements_toString [] = Inr []"
| "elements_toString (x # xs) =
     (case (if nullish x then Inr [] else js_toString x) of
        Inl e \<Rightarrow> Inl e
      | Inr str \<Rightarrow>
          (case elements_toString xs of Inl e \<Rightarrow> Inl e | Inr strs \<Rightarrow> Inr (str # strs)))"

definition object_prototype_names :: "string list" where
  "object_prototype_names =
     [''constructor'', ''__defineGetter__'', ''__defineSetter__'', ''hasOwnProperty'',
      ''__lookupGetter__'', ''__lookupSetter__'', ''isPrototypeOf'', ''propertyIsEnumerable'',
      ''toString'', ''valueOf'', ''__proto__'', ''toLocaleString'']"

datatype looked_up = Missing | Inherited | Own model_config

definition lookup_model :: "jsval \<Rightarrow> jsval + looked_up" where
  "lookup_model selectedModel =
     (case js_toString selectedModel of
        Inl e \<Rightarrow> Inl e
      | Inr key \<Rightarrow>
          (case map_of AI_MODELS key of
             Some cfg \<Rightarrow> Inr (Own cfg)
           | None \<Rightarrow>
               Inr (if List.member object_prototype_names key then Inherited else Missing)))"

section \<open>Provider calls\<close>

datatype client = Openai | Groq

text \<open>
  The body handed to \<open>chat.completions.create\<close>. A message is the object the SDK
  serialises: \<open>timestamp = None\<close> is an object without that field. A field that is
  \<open>None\<close> is absent or \<open>undefined\<close>.
\<close>

record request =
  client :: client
  messages :: "turn list"
  model :: jsval
  req_temperature :: "rat option"
  max_tokens :: "nat option"
  presence_penalty :: "rat option"
  frequency_penalty :: "rat option"
  top_p :: rat
  stream :: bool

text \<open>A provider answers a request with a completion (\<open>Inr\<close>) or rejects with a thrown value.\<close>

type_synonym remote = "request \<Rightarrow> jsval + jsval"

definition and_then :: "jsval + 'a \<Rightarrow> ('a \<Rightarrow> jsval + 'b) \<Rightarrow> jsval + 'b" where
  "and_then r f = (case r of Inl e \<Rightarrow> Inl e | Inr v \<Rightarrow> f v)"

definition groq_request :: "turn list \<Rightarrow> model_config \<Rightarrow> request" where
  "groq_request msgs modelConfig =
     \<lparr>client = Groq,
      messages = map (\<lambda>msg. \<lparr>role = role msg, content = content msg, timestamp = None\<rparr>) msgs,
      model = JStr ''llama-3.1-70b-versatile'',
      req_temperature = Some (temperature modelConfig),
      max_tokens = Some (maxTokens modelConfig),
      presence_penalty = None,
      frequency_penalty = None,
      top_p = 1,
      stream = False\<rparr>"

text \<open>
  The \<open>catch\<close> block of \<open>handleGroqResponse\<close> logs \<open>error.message\<close> before it rethrows:
  when the provider rejected with \<open>null\<close> or \<open>undefined\<close>, that read throws a TypeError,
  which leaves the function in place of the rejected value.
\<close>

definition handleGroqResponse :: "remote \<Rightarrow> turn list \<Rightarrow> model_config \<Rightarrow> jsval + jsval" where
  "handleGroqResponse api msgs modelConfig =
     (case and_then (api (groq_request msgs modelConfig)) (\<lambda>completion.
           and_then (get_prop completion ''choices'') (\<lambda>choices.
             if \<not> truthy choices then Inl (new_Error ''Invalid response from GROQ API'')
             else and_then (at_index choices 0) (\<lambda>choice.
               if \<not> truthy choice then Inl (new_Error ''Invalid response from GROQ API'')
               else and_then (get_prop choice ''message'') (\<lambda>message.
                    get_prop message ''content'')))) of
        Inr response \<Rightarrow> Inr response
      | Inl error \<Rightarrow> and_then (get_prop error ''message'') (\<lambda>logged. Inl error))"

definition openai_request ::
  "turn list \<Rightarrow> jsval \<Rightarrow> rat option \<Rightarrow> nat option \<Rightarrow> request" where
  "openai_request msgs selectedModel temp maxTok =
     \<lparr>client = Openai,
      messages = msgs,
      model = selectedModel,
      req_temperature = temp,
      max_tokens = maxTok,
      presence_penalty = Some (6 / 10),
      frequency_penalty = Some (3 / 10),
      top_p = 9 / 10,
      stream = False\<rparr>"

definition openai_content :: "jsval \<Rightarrow> jsval + jsval" where
  "openai_content completion =
     and_then (get_prop completion ''choices'') (\<lambda>choices.
     and_then (at_index choices 0) (\<lambda>choice.
     and_then (get_prop choice ''message'') (\<lambda>message.
       get_prop message ''content'')))"

section \<open>The socket handlers\<close>

datatype event =
    Gpt_response (reply_text: jsval) (model_used: jsval)
  | Error_event (message: string) (details: jsval)
  | Context_reset string

text \<open>
  What a handler leaves behind: the store, the requests it sent upstream, the events it
  emitted to its connection, and the exception that escaped it, if one did.
\<close>

record outcome =
  contexts :: store
  requests :: "request list"
  emitted :: "event list"
  unhandled :: "jsval option"

definition handleAIError :: "jsval \<Rightarrow> jsval + event" where
  "handleAIError error =
     and_then (get_prop error ''response'') (\<lambda>response.
     and_then (if nullish response then Inr JUndefined else get_prop response ''status'') (\<lambda>status.
     and_then (if status = JNum 429 then Inr JUndefined else get_prop error ''code'') (\<lambda>code.
     and_then (get_prop error ''message'') (\<lambda>msg.
       Inr (Error_event
              (if status = JNum 429 then ''Rate limit exceeded. Please try again in a moment.''
               else if code = JStr ''ECONNREFUSED''
               then ''Unable to connect to AI service. Please try again later.''
               else ''An error occurred while processing your request.'')
              msg)))))"

definition caught :: "jsval \<Rightarrow> store \<Rightarrow> request list \<Rightarrow> outcome" where
  "caught error s reqs =
     (case handleAIError error of
        Inl e \<Rightarrow> \<lparr>contexts = s, requests = reqs, emitted = [], unhandled = Some e\<rparr>
      | Inr ev \<Rightarrow> \<lparr>contexts = s, requests = reqs, emitted = [ev], unhandled = None\<rparr>)"

definition replied :: "jsval + jsval \<Rightarrow> jsval \<Rightarrow> store \<Rightarrow> request list \<Rightarrow> outcome" where
  "replied r selectedModel s reqs =
     (case r of
        Inl e \<Rightarrow> caught e s reqs
      | Inr response \<Rightarrow>
          \<lparr>contexts = s, requests = reqs,
           emitted = [Gpt_response response selectedModel], unhandled = None\<rparr>)"

definition on_transcript :: "remote \<Rightarrow> sid \<Rightarrow> int \<Rightarrow> jsval \<Rightarrow> store \<Rightarrow> outcome" where
  "on_transcript api socket_id now data s =
     (case and_then (get_prop data ''model'') (\<lambda>m.
           and_then (get_prop data ''final'') (\<lambda>f. Inr (m, f))) of
        Inl e \<Rightarrow> \<lparr>contexts = s, requests = [], emitted = [], unhandled = Some e\<rparr>
      | Inr (data_model, final) \<Rightarrow>
          if \<not> truthy final
          then \<lparr>contexts = s, requests = [], emitted = [], unhandled = None\<rparr>
          else (case final of
                  JStr str \<Rightarrow>
                    if trim str = []
                    then \<lparr>contexts = s, requests = [], emitted = [], unhandled = None\<rparr>
                    else (case manageConversationHistory socket_id (trim str) ''user'' now s of
                            Inl e \<Rightarrow> caught e s []
                          | Inr (msgs, s') \<Rightarrow>
                              (let selectedModel =
                                     (if truthy data_model then data_model
                                      else JStr ''llama-3.1-70b-versatile'')
                               in case lookup_model selectedModel of
                                    Inl e \<Rightarrow> caught e s' []
                                  | Inr Missing \<Rightarrow>
                                      caught (cannot_read JUndefined ''provider'') s' []
                                  | Inr (Own modelConfig) \<Rightarrow>
                                      if provider modelConfig = ''groq''
                                      then replied (handleGroqResponse api msgs modelConfig)
                                             selectedModel s' [groq_request msgs modelConfig]
                                      else (let req = openai_request msgs selectedModel
                                                        (Some (temperature modelConfig))
                                                        (Some (maxTokens modelConfig))
                                            in replied (and_then (api req) openai_content)
                                                 selectedModel s' [req])
                                  | Inr Inherited \<Rightarrow>
                                      (let req = openai_request msgs selectedModel None None
                                       in replied (and_then (api req) openai_content)
                                            selectedModel s' [req])))
                | _ \<Rightarrow> \<lparr>contexts = s, requests = [], emitted = [],
                        unhandled = Some (new_Error ''data.final.trim is not a function'')\<rparr>))"

definition on_reset_context :: "sid \<Rightarrow> store \<Rightarrow> outcome" where
  "on_reset_context socket_id s =
     \<lparr>contexts = s(socket_id := None), requests = [],
      emitted = [Context_reset ''Conversation context has been reset''], unhandled = None\<rparr>"

text \<open>
  \<open>load-context\<close>: \<open>userContexts.get(socket.id) || []\<close> is spread into a new object
  literal, which then replaces the entry. Spreading the merged object of an earlier
  \<open>load-context\<close> copies its indexed turns; its \<open>userPreferences\<close> is overwritten.
\<close>

definition on_load_context :: "sid \<Rightarrow> jsval \<Rightarrow> store \<Rightarrow> outcome" where
  "on_load_context socket_id savedContext s =
     (if truthy savedContext \<and> typeof_object savedContext
      then (let existingContext = (case s socket_id of
                                     None \<Rightarrow> []
                                   | Some (Arr ts) \<Rightarrow> ts
                                   | Some (Obj ts prefs) \<Rightarrow> ts)
            in \<lparr>contexts = s(socket_id \<mapsto> Obj existingContext savedContext),
                requests = [], emitted = [], unhandled = None\<rparr>)
      else \<lparr>contexts = s, requests = [], emitted = [], unhandled = None\<rparr>)"

text \<open>The timer set on \<open>disconnect\<close>, when it fires an hour later.\<close>

definition disconnect_timeout :: "sid \<Rightarrow> store \<Rightarrow> store" where
  "disconnect_timeout socket_id s = s(socket_id := None)"

section \<open>Concrete inputs\<close>

text \<open>
  Twelve appends alternating between user and assistant, a provider that answers
  "hi there", one whose completion has no \<open>choices\<close>, the user turn "hello" stamped
  1000, the table's Groq configuration, and a saved-preferences payload.
\<close>

definition twelve :: "(string \<times> string \<times> int) list" where
  "twelve = [(''user'', ''a'', 1), (''assistant'', ''b'', 2), (''user'', ''c'', 3),
             (''assistant'', ''d'', 4), (''user'', ''e'', 5), (''assistant'', ''f'', 6),
             (''user'', ''g'', 7), (''assistant'', ''h'', 8), (''user'', ''i'', 9),
             (''assistant'', ''j'', 10), (''user'', ''k'', 11), (''assistant'', ''l'', 12)]"

definition hi_there :: remote where
  "hi_there req =
     Inr (JObj [(''choices'',
                 JArr [JObj [(''message'', JObj [(''role'', JStr ''assistant''),
                                                 (''content'', JStr ''hi there'')])]])])"

definition no_choices :: remote where
  "no_choices req = Inr (JObj [(''id'', JStr ''cmpl-1'')])"

definition hello :: turn where
  "hello = \<lparr>role = ''user'', content = ''hello'', timestamp = Some 1000\<rparr>"

definition llama :: model_config where
  "llama = \<lparr>provider = ''groq'', maxTokens = 1024, temperature = 1\<rparr>"

definition dark_theme :: jsval where
  "dark_theme = JObj [(''theme'', JStr ''dark'')]"

section \<open>Appending and trimming\<close>

lemma keep_last_append:
  "drop (length (drop (length xs - n) xs @ ys) - n) (drop (length xs - n) xs @ ys)
     = drop (length (xs @ ys) - n) (xs @ ys)"
  by (cases "length xs \<le> n") (auto simp: drop_append add.commute)

lemma manage_absent:
  "s userId = None \<Longrightarrow>
   manageConversationHistory userId m r now s =
     Inr ([system_turn, mk_turn (r, m, now)], s(userId \<mapsto> Arr [system_turn, mk_turn (r, m, now)]))"
  by (simp add: manageConversationHistory_def mk_turn_def Let_def)

lemma manage_array:
  "s userId = Some (Arr (h # rest)) \<Longrightarrow>
   manageConversationHistory userId m r now s =
     (let kept = h # drop (length (rest @ [mk_turn (r, m, now)]) - 10) (rest @ [mk_turn (r, m, now)])
      in Inr (kept, s(userId \<mapsto> Arr kept)))"
  by (auto simp: manageConversationHistory_def mk_turn_def splice_def Let_def)

lemma manage_object:
  "s userId = Some (Obj ts prefs) \<Longrightarrow>
   manageConversationHistory userId m r now s = Inl (new_Error ''context.push is not a function'')"
  by (simp add: manageConversationHistory_def)

lemma appends_array:
  "s userId = Some (Arr (h # rest)) \<Longrightarrow>
   \<exists>s'. appends userId ts s = Inr s' \<and>
        s' userId = Some (Arr (h # (if ts = [] then rest
                                    else drop (length (rest @ map mk_turn ts) - 10) (rest @ map mk_turn ts)))) \<and>
        (\<forall>other. other \<noteq> userId \<longrightarrow> s' other = s other)"
proof (induction ts arbitrary: s rest)
  case Nil
  then show ?case by simp
next
  case (Cons a ts)
  obtain r m now where a: "a = (r, m, now)" by (cases a) auto
  define rest' where "rest' = drop (length (rest @ [mk_turn a]) - 10) (rest @ [mk_turn a])"
  define s1 where "s1 = s(userId \<mapsto> Arr (h # rest'))"
  have step: "manageConversationHistory userId m r now s = Inr (h # rest', s1)"
    using manage_array [of s userId h rest m r now] Cons.prems by (simp add: Let_def rest'_def s1_def a)
  have s1u: "s1 userId = Some (Arr (h # rest'))" by (simp add: s1_def)
  from Cons.IH [of s1 rest'] s1u obtain s' where
    run: "appends userId ts s1 = Inr s'" and
    ctx: "s' userId = Some (Arr (h # (if ts = [] then rest'
             else drop (length (rest' @ map mk_turn ts) - 10) (rest' @ map mk_turn ts))))" and
    oth: "\<forall>other. other \<noteq> userId \<longrightarrow> s' other = s1 other"
    by blast
  have k: "drop (length (rest' @ map mk_turn ts) - 10) (rest' @ map mk_turn ts)
           = drop (length (rest @ map mk_turn (a # ts)) - 10) (rest @ map mk_turn (a # ts))"
    using keep_last_append [of "rest @ [mk_turn a]" 10 "map mk_turn ts"]
    by (simp add: rest'_def)
  have "appends userId (a # ts) s = Inr s'" using step run by (simp add: a)
  moreover have "s' userId = Some (Arr (h # drop (length (rest @ map mk_turn (a # ts)) - 10) (rest @ map mk_turn (a # ts))))"
  proof (cases "ts = []")
    case True
    then show ?thesis using ctx by (simp add: rest'_def)
  next
    case False
    then show ?thesis using ctx k by simp
  qed
  moreover have "\<forall>other. other \<noteq> userId \<longrightarrow> s' other = s other"
    using oth by (simp add: s1_def)
  ultimately show ?case by simp
qed

lemma appends_absent:
  assumes "s userId = None" and "ts \<noteq> []"
  shows "\<exists>s'. appends userId ts s = Inr s' \<and>
           s' userId = Some (Arr (system_turn #
                         drop (length (map mk_turn ts) - 10) (map mk_turn ts))) \<and>
           (\<forall>other. other \<noteq> userId \<longrightarrow> s' other = s other)"
proof -
  obtain a rest where ts: "ts = a # rest" using assms(2) by (cases ts) auto
  obtain r m now where a: "a = (r, m, now)" by (cases a) auto
  define s1 where "s1 = s(userId \<mapsto> Arr [system_turn, mk_turn a])"
  have step: "manageConversationHistory userId m r now s = Inr ([system_turn, mk_turn a], s1)"
    using manage_absent [of s userId m r now] assms(1) by (simp add: s1_def a)
  have "s1 userId = Some (Arr (system_turn # [mk_turn a]))" by (simp add: s1_def)
  from appends_array [of s1 userId system_turn "[mk_turn a]" rest] this obtain s' where
    run: "appends userId rest s1 = Inr s'" and
    ctx: "s' userId = Some (Arr (system_turn # (if rest = [] then [mk_turn a]
             else drop (length ([mk_turn a] @ map mk_turn rest) - 10) ([mk_turn a] @ map mk_turn rest))))" and
    oth: "\<forall>other. other \<noteq> userId \<longrightarrow> s' other = s1 other"
    by blast
  have "appends userId ts s = Inr s'" using step run by (simp add: ts a)
  moreover have "s' userId = Some (Arr (system_turn #
                         drop (length (map mk_turn ts) - 10) (map mk_turn ts)))"
    using ctx by (cases "rest = []") (simp_all add: ts)
  moreover have "\<forall>other. other \<noteq> userId \<longrightarrow> s' other = s other"
    using oth by (simp add: s1_def)
  ultimately show ?thesis by blast
qed

lemma role_mk_turn: "role (mk_turn a) = fst a"
  by (cases a) (simp add: mk_turn_def)

lemma system_turn_not_appended: "system_turn \<notin> set (map mk_turn ts)"
  by (auto simp: mk_turn_def system_turn_def)

text \<open>
  C2. Once more than ten non-system turns have been appended for a connection, the context
  holds exactly ten non-system turns after each further append, and they are the ten
  appended last, in the order of their arrival. The connection starts without a context or
  with an array headed by a system turn; \<open>n\<close> is the number of appends made so far.
\<close>

theorem trim_keeps_latest_ten:
  assumes start: "s userId = None \<or>
                  (\<exists>h rest. s userId = Some (Arr (h # rest)) \<and> role h = ''system'')"
      and nonsys: "\<forall>a \<in> set ts. fst a \<noteq> ''system''"
      and n: "10 < n" "n \<le> length ts"
  shows "\<exists>s' c. appends userId (take n ts) s = Inr s' \<and> s' userId = Some (Arr c) \<and>
           filter (\<lambda>t. role t \<noteq> ''system'') c = map mk_turn (drop (n - 10) (take n ts)) \<and>
           length (filter (\<lambda>t. role t \<noteq> ''system'') c) = 10"
proof -
  define us where "us = take n ts"
  have len: "length us = n" using n by (simp add: us_def)
  have ne: "us \<noteq> []" using len n by auto
  have ns: "\<forall>a \<in> set (drop (n - 10) us). role (mk_turn a) \<noteq> ''system''"
    using nonsys by (auto simp: us_def role_mk_turn dest!: in_set_dropD in_set_takeD)
  have keep: "filter (\<lambda>t. role t \<noteq> ''system'') (map mk_turn (drop (n - 10) us))
                = map mk_turn (drop (n - 10) us)"
    using ns by (simp add: filter_map o_def)
  have ten: "length (map mk_turn (drop (n - 10) us)) = 10" using len n by simp
  from start show ?thesis
  proof
    assume "s userId = None"
    from appends_absent [of s userId us] this ne obtain s' where
      "appends userId us s = Inr s'"
      "s' userId = Some (Arr (system_turn # drop (length (map mk_turn us) - 10) (map mk_turn us)))"
      by blast
    moreover have "drop (length (map mk_turn us) - 10) (map mk_turn us) = map mk_turn (drop (n - 10) us)"
      by (simp add: len drop_map)
    ultimately show ?thesis using keep ten
      by (simp add: us_def [symmetric] system_turn_def)
  next
    assume "\<exists>h rest. s userId = Some (Arr (h # rest)) \<and> role h = ''system''"
    then obtain h rest where h: "s userId = Some (Arr (h # rest))" "role h = ''system''" by blast
    from appends_array [of s userId h rest us] h(1) ne obtain s' where
      "appends userId us s = Inr s'"
      "s' userId = Some (Arr (h # drop (length (rest @ map mk_turn us) - 10) (rest @ map mk_turn us)))"
      by auto
    moreover have "drop (length (rest @ map mk_turn us) - 10) (rest @ map mk_turn us)
                     = map mk_turn (drop (n - 10) us)"
      using n by (simp add: len drop_map)
    ultimately show ?thesis using keep ten h(2)
      by (simp add: us_def [symmetric])
  qed
qed

theorem trim_keeps_latest_ten_witness:
  "\<exists>s' c. appends ''u1'' twelve Map.empty = Inr s' \<and> s' ''u1'' = Some (Arr c) \<and>
      filter (\<lambda>t. role t \<noteq> ''system'') c = map mk_turn (drop 2 twelve) \<and>
      length (filter (\<lambda>t. role t \<noteq> ''system'') c) = 10"
  using trim_keeps_latest_ten [of Map.empty "''u1''" twelve 12]
  by (simp add: twelve_def)

text \<open>
  C3. Whatever the roles and contents appended, the context's first element is the seeded
  system turn after every append, and no other element is that turn: trimming never
  removes it.
\<close>

theorem system_turn_stays_first:
  assumes start: "s userId = None \<or>
                  (\<exists>rest. s userId = Some (Arr (system_turn # rest)) \<and> system_turn \<notin> set rest)"
      and ne: "ts \<noteq> []"
  shows "\<exists>s' rest'. appends userId ts s = Inr s' \<and>
           s' userId = Some (Arr (system_turn # rest')) \<and> system_turn \<notin> set rest'"
  using start
proof
  assume "s userId = None"
  from appends_absent [of s userId ts] this ne obtain s' where
    "appends userId ts s = Inr s'"
    "s' userId = Some (Arr (system_turn # drop (length (map mk_turn ts) - 10) (map mk_turn ts)))"
    by blast
  moreover have "system_turn \<notin> set (drop (length (map mk_turn ts) - 10) (map mk_turn ts))"
    using system_turn_not_appended [of ts] by (auto dest!: in_set_dropD)
  ultimately show ?thesis by blast
next
  assume "\<exists>rest. s userId = Some (Arr (system_turn # rest)) \<and> system_turn \<notin> set rest"
  then obtain rest where r: "s userId = Some (Arr (system_turn # rest))" "system_turn \<notin> set rest"
    by blast
  from appends_array [of s userId system_turn rest ts] r(1) ne obtain s' where
    "appends userId ts s = Inr s'"
    "s' userId = Some (Arr (system_turn #
        drop (length (rest @ map mk_turn ts) - 10) (rest @ map mk_turn ts)))"
    by auto
  moreover have "system_turn \<notin> set (drop (length (rest @ map mk_turn ts) - 10) (rest @ map mk_turn ts))"
    using r(2) system_turn_not_appended [of ts] by (auto dest!: in_set_dropD)
  ultimately show ?thesis by blast
qed

theorem system_turn_stays_first_witness:
  "\<exists>s' rest'. appends ''u1'' twelve Map.empty = Inr s' \<and>
      s' ''u1'' = Some (Arr (system_turn # rest')) \<and> system_turn \<notin> set rest'"
  using system_turn_stays_first [of Map.empty "''u1''" twelve]
  by (simp add: twelve_def)

section \<open>The handlers\<close>

lemma caught_contexts: "contexts (caught e s reqs) = s"
  by (simp add: caught_def split: sum.splits)

lemma replied_contexts: "contexts (replied r m s reqs) = s"
  by (simp add: replied_def caught_contexts split: sum.splits)

text \<open>The only effect a transcript can have on the store is one append with role \<open>user\<close>.\<close>

lemma on_transcript_contexts:
  "contexts (on_transcript api socket_id now data s) = s \<or>
   (\<exists>str msgs. manageConversationHistory socket_id str ''user'' now s
                  = Inr (msgs, contexts (on_transcript api socket_id now data s)))"
  unfolding on_transcript_def
  by (auto simp: caught_contexts replied_contexts Let_def
           split: sum.splits jsval.splits looked_up.splits prod.splits)

lemma trim_hello: "trim ''hello'' = ''hello''"
  by (simp add: trim_def is_ws_def)

lemma lookup_llama: "lookup_model (JStr ''llama-3.1-70b-versatile'') = Inr (Own llama)"
  by (simp add: lookup_model_def AI_MODELS_def llama_def)

lemma lookup_gpt: "lookup_model (JStr ''gpt-3.5-turbo-16k'') =
    Inr (Own \<lparr>provider = ''openai'', maxTokens = 700, temperature = 7 / 10\<rparr>)"
  by (simp add: lookup_model_def AI_MODELS_def)

text \<open>
  C1. The end-to-end flow: a fresh connection sends \<open>{final: "hello", model:
  "llama-3.1-70b-versatile"}\<close> and the provider answers "hi there". The reply event is
  emitted, but the context afterwards holds the system turn and the user turn only: the
  handler never appends the assistant's reply.
\<close>

theorem reply_not_recorded:
  "on_transcript hi_there ''u1'' 1000
     (JObj [(''final'', JStr ''hello''), (''model'', JStr ''llama-3.1-70b-versatile'')]) Map.empty
   = \<lparr>contexts = [''u1'' \<mapsto> Arr [system_turn, hello]],
      requests = [groq_request [system_turn, hello] llama],
      emitted = [Gpt_response (JStr ''hi there'') (JStr ''llama-3.1-70b-versatile'')],
      unhandled = None\<rparr>"
  by (simp add: on_transcript_def and_then_def trim_hello lookup_llama
        manageConversationHistory_def Let_def hello_def llama_def replied_def
        handleGroqResponse_def hi_there_def)

text \<open>
  C4. \<open>load-context\<close> with an object payload replaces the connection's array of turns by
  the merged object. The next transcript cannot append to it: \<open>push\<close> fails, no request is
  sent upstream, and the client receives an error event.
\<close>

theorem load_context_breaks_appends:
  "contexts (on_load_context ''u1'' dark_theme [''u1'' \<mapsto> Arr [system_turn, hello]])
     = [''u1'' \<mapsto> Obj [system_turn, hello] dark_theme] \<and>
   on_transcript hi_there ''u1'' 2000 (JObj [(''final'', JStr ''hello'')])
       [''u1'' \<mapsto> Obj [system_turn, hello] dark_theme]
     = \<lparr>contexts = [''u1'' \<mapsto> Obj [system_turn, hello] dark_theme],
        requests = [],
        emitted = [Error_event ''An error occurred while processing your request.''
                     (JStr ''context.push is not a function'')],
        unhandled = None\<rparr>"
  by (simp add: on_load_context_def dark_theme_def on_transcript_def and_then_def trim_hello
        manageConversationHistory_def caught_def handleAIError_def new_Error_def)

text \<open>
  C5. The request sent to the OpenAI client carries the stored turns as they are: the user
  turn goes upstream with its \<open>timestamp\<close>. (The Groq path strips it, see
  \<open>groq_request_strips\<close>.)
\<close>

theorem openai_request_carries_timestamp:
  "map (\<lambda>req. (client req, map timestamp (messages req)))
     (requests (on_transcript hi_there ''u1'' 1000
        (JObj [(''final'', JStr ''hello''), (''model'', JStr ''gpt-3.5-turbo-16k'')]) Map.empty))
   = [(Openai, [None, Some 1000])]"
  by (simp add: on_transcript_def and_then_def trim_hello lookup_gpt
        manageConversationHistory_def Let_def replied_def openai_request_def
        openai_content_def hi_there_def system_turn_def)

lemma groq_request_strips: "list_all (\<lambda>m. timestamp m = None) (messages (groq_request msgs cfg))"
  by (simp add: groq_request_def list_all_iff)

text \<open>
  C6. When the completion returned by Groq has no usable \<open>choices\<close> or no usable
  \<open>choices[0]\<close>, the adapter throws its own \<open>Invalid response\<close> error; the handler
  catches it, nothing escapes, and the error event's \<open>message\<close> is the fixed generic
  sentence, the exception's text going to \<open>details\<close> only.
\<close>

theorem groq_malformed_reported:
  assumes final: "get_prop data ''final'' = Inr (JStr str)" "trim str \<noteq> []"
      and m: "get_prop data ''model'' = Inr m"
             "\<not> truthy m \<or> m = JStr ''llama-3.1-70b-versatile''"
      and ctx: "manageConversationHistory socket_id (trim str) ''user'' now s = Inr (msgs, s')"
      and api: "api (groq_request msgs llama) = Inr completion"
      and lacks: "get_prop completion ''choices'' = Inr choices"
                 "\<not> truthy choices \<or> (\<exists>c. at_index choices 0 = Inr c \<and> \<not> truthy c)"
  shows "handleGroqResponse api msgs llama = Inl (new_Error ''Invalid response from GROQ API'') \<and>
         on_transcript api socket_id now data s =
           \<lparr>contexts = s', requests = [groq_request msgs llama],
            emitted = [Error_event ''An error occurred while processing your request.''
                         (JStr ''Invalid response from GROQ API'')],
            unhandled = None\<rparr>"
proof -
  have adapter: "handleGroqResponse api msgs llama = Inl (new_Error ''Invalid response from GROQ API'')"
    using api lacks by (auto simp: handleGroqResponse_def and_then_def new_Error_def)
  have sel: "lookup_model (if truthy m then m else JStr ''llama-3.1-70b-versatile'') = Inr (Own llama)"
    using m(2) lookup_llama by auto
  have h: "handleAIError (new_Error ''Invalid response from GROQ API'')
             = Inr (Error_event ''An error occurred while processing your request.''
                      (JStr ''Invalid response from GROQ API''))"
    by (simp add: handleAIError_def new_Error_def and_then_def)
  have tr: "truthy (JStr str)" using final(2) by (auto simp: trim_def)
  have "on_transcript api socket_id now data s =
           \<lparr>contexts = s', requests = [groq_request msgs llama],
            emitted = [Error_event ''An error occurred while processing your request.''
                         (JStr ''Invalid response from GROQ API'')],
            unhandled = None\<rparr>"
    unfolding on_transcript_def
    using final m(1) ctx sel adapter h tr
    by (simp add: and_then_def Let_def replied_def caught_def llama_def)
  with adapter show ?thesis by simp
qed

theorem groq_malformed_reported_witness:
  "on_transcript no_choices ''u1'' 1000 (JObj [(''final'', JStr ''hello'')]) Map.empty =
      \<lparr>contexts = [''u1'' \<mapsto> Arr [system_turn, hello]],
       requests = [groq_request [system_turn, hello] llama],
       emitted = [Error_event ''An error occurred while processing your request.''
                    (JStr ''Invalid response from GROQ API'')],
       unhandled = None\<rparr>"
  using groq_malformed_reported [of "JObj [(''final'', JStr ''hello'')]" "''hello''" JUndefined
          "''u1''" 1000 Map.empty "[system_turn, hello]" "[''u1'' \<mapsto> Arr [system_turn, hello]]"
          no_choices "JObj [(''id'', JStr ''cmpl-1'')]" JUndefined]
  by (simp add: trim_hello manageConversationHistory_def Let_def hello_def no_choices_def)

lemma trim_blank:
  assumes "\<forall>c \<in> set str. is_ws c"
  shows "trim str = []"
proof -
  have d: "dropWhile is_ws str = []" using assms by simp
  show ?thesis by (simp only: trim_def d rev.simps dropWhile.simps)
qed

text \<open>
  C8. A transcript whose \<open>final\<close> text is empty or all white space sends no request,
  emits nothing and leaves the store as it was.
\<close>

theorem blank_transcript_ignored:
  assumes final: "get_prop data ''final'' = Inr (JStr str)"
      and blank: "\<forall>c \<in> set str. is_ws c"
  shows "on_transcript api socket_id now data s =
           \<lparr>contexts = s, requests = [], emitted = [], unhandled = None\<rparr>"
proof -
  obtain m where m: "get_prop data ''model'' = Inr m"
    using final by (cases data) (auto simp: cannot_read_def)
  show ?thesis
    unfolding on_transcript_def
    using final m trim_blank [OF blank]
    by (simp add: and_then_def)
qed

theorem blank_transcript_ignored_witness:
  "on_transcript hi_there ''u1'' 1000
     (JObj [(''final'', JStr [CHR '' '', CHR 0x09, CHR 0x0A, CHR '' ''])])
     [''u1'' \<mapsto> Arr [system_turn, hello]]
   = \<lparr>contexts = [''u1'' \<mapsto> Arr [system_turn, hello]], requests = [], emitted = [],
      unhandled = None\<rparr> \<and>
   on_transcript hi_there ''u1'' 1000 (JObj [(''final'', JStr [])]) Map.empty
   = \<lparr>contexts = Map.empty, requests = [], emitted = [], unhandled = None\<rparr>"
  using blank_transcript_ignored [of "JObj [(''final'', JStr [CHR '' '', CHR 0x09, CHR 0x0A, CHR '' ''])]"
          "[CHR '' '', CHR 0x09, CHR 0x0A, CHR '' '']" hi_there "''u1''" 1000
          "[''u1'' \<mapsto> Arr [system_turn, hello]]"]
        blank_transcript_ignored [of "JObj [(''final'', JStr [])]" "[]" hi_there "''u1''" 1000 Map.empty]
  by (simp add: is_ws_def)

text \<open>
  On an array of turns the sweep removes the entry exactly when \<open>now\<close> minus the last
  turn's timestamp is strictly more than 3600000 ms; at the threshold or below it stays,
  and so does a context whose last turn has no timestamp, such as one holding the seeded
  system turn alone.
\<close>

lemma sweep_array:
  assumes "s userId = Some (Arr ctx)" and "ctx \<noteq> []"
  shows "(\<forall>t. timestamp (last ctx) = Some t \<longrightarrow>
            sweep now s userId = (if now - t > 3600000 then None else Some (Arr ctx))) \<and>
         (timestamp (last ctx) = None \<longrightarrow> sweep now s userId = Some (Arr ctx)) \<and>
         (ctx = [system_turn] \<longrightarrow> sweep now s userId = Some (Arr [system_turn]))"
  using assms by (auto simp: sweep_def stale_def system_turn_def)

lemma sweep_array_examples:
  "sweep 3601001 [''u1'' \<mapsto> Arr [system_turn, hello]] ''u1'' = None \<and>
   sweep 3601000 [''u1'' \<mapsto> Arr [system_turn, hello]] ''u1'' = Some (Arr [system_turn, hello]) \<and>
   sweep 3601001 [''u1'' \<mapsto> Arr [system_turn]] ''u1'' = Some (Arr [system_turn])"
  using sweep_array [of "[''u1'' \<mapsto> Arr [system_turn, hello]]" "''u1''"
          "[system_turn, hello]" 3601001]
        sweep_array [of "[''u1'' \<mapsto> Arr [system_turn, hello]]" "''u1''"
          "[system_turn, hello]" 3601000]
        sweep_array [of "[''u1'' \<mapsto> Arr [system_turn]]" "''u1''"
          "[system_turn]" 3601001]
  by (simp add: hello_def)

text \<open>
  C7. A connection sends "hello" at clock reading 1000 and then a \<open>load-context\<close>
  payload: its entry is now the merged object. A sweep two hours later, long past the
  threshold, leaves the entry in the store: the object has no \<open>length\<close>, so the sweep
  finds no last turn to date.
\<close>

theorem sweep_keeps_stale_merged_object:
  "contexts (on_load_context ''u1'' dark_theme
      (contexts (on_transcript hi_there ''u1'' 1000 (JObj [(''final'', JStr ''hello'')]) Map.empty)))
     = [''u1'' \<mapsto> Obj [system_turn, hello] dark_theme] \<and>
   sweep 7201000 [''u1'' \<mapsto> Obj [system_turn, hello] dark_theme] ''u1''
     = Some (Obj [system_turn, hello] dark_theme)"
  by (simp add: on_load_context_def dark_theme_def on_transcript_def and_then_def trim_hello
        lookup_llama manageConversationHistory_def Let_def hello_def llama_def replied_def
        handleGroqResponse_def hi_there_def sweep_def stale_def)

text \<open>
  C9. \<open>reset-context\<close> removes the connection's entry whatever it was (or was not), leaves
  the other connections alone, throws nothing and emits the confirmation; an append right
  after it yields exactly the system turn followed by the new turn.
\<close>

theorem reset_then_append:
  "contexts (on_reset_context userId s) userId = None \<and>
   (\<forall>other. other \<noteq> userId \<longrightarrow> contexts (on_reset_context userId s) other = s other) \<and>
   emitted (on_reset_context userId s) = [Context_reset ''Conversation context has been reset''] \<and>
   unhandled (on_reset_context userId s) = None \<and>
   (\<exists>s'. manageConversationHistory userId m r now (contexts (on_reset_context userId s))
            = Inr ([system_turn, \<lparr>role = r, content = m, timestamp = Some now\<rparr>], s') \<and>
         s' userId = Some (Arr [system_turn, \<lparr>role = r, content = m, timestamp = Some now\<rparr>]))"
  by (simp add: on_reset_context_def manageConversationHistory_def Let_def)

theorem reset_then_append_witness:
  "contexts (on_reset_context ''u1'' [''u1'' \<mapsto> Obj [system_turn, hello] dark_theme]) ''u1'' = None \<and>
   (\<exists>s'. manageConversationHistory ''u1'' ''hi'' ''user'' 5
            (contexts (on_reset_context ''u1'' [''u1'' \<mapsto> Obj [system_turn, hello] dark_theme]))
            = Inr ([system_turn, \<lparr>role = ''user'', content = ''hi'', timestamp = Some 5\<rparr>], s'))"
  using reset_then_append [of "''u1''" "[''u1'' \<mapsto> Obj [system_turn, hello] dark_theme]" "''hi''" "''user''" 5]
  by blast

text \<open>
  C10. When the \<open>model\<close> field is falsy (absent, \<open>null\<close>, the empty string, \<open>false\<close> or
  \<open>0\<close>), the request goes to Groq under the default model id, and a reply event names
  that id as the model used.
\<close>

theorem falsy_model_defaults:
  assumes final: "get_prop data ''final'' = Inr (JStr str)" "trim str \<noteq> []"
      and m: "get_prop data ''model'' = Inr m" "\<not> truthy m"
      and ctx: "manageConversationHistory socket_id (trim str) ''user'' now s = Inr (msgs, s')"
  shows "requests (on_transcript api socket_id now data s) = [groq_request msgs llama] \<and>
         model (groq_request msgs llama) = JStr ''llama-3.1-70b-versatile'' \<and>
         (\<forall>reply. handleGroqResponse api msgs llama = Inr reply \<longrightarrow>
            emitted (on_transcript api socket_id now data s)
              = [Gpt_response reply (JStr ''llama-3.1-70b-versatile'')])"
proof -
  have tr: "truthy (JStr str)" using final(2) by (auto simp: trim_def)
  have "on_transcript api socket_id now data s =
          replied (handleGroqResponse api msgs llama) (JStr ''llama-3.1-70b-versatile'') s'
            [groq_request msgs llama]"
    unfolding on_transcript_def
    using final m ctx tr lookup_llama
    by (simp add: and_then_def Let_def llama_def)
  then show ?thesis
    by (auto simp: replied_def caught_def groq_request_def split: sum.splits)
qed

theorem falsy_model_defaults_witness:
  "emitted (on_transcript hi_there ''u1'' 1000 (JObj [(''final'', JStr ''hello'')]) Map.empty)
     = [Gpt_response (JStr ''hi there'') (JStr ''llama-3.1-70b-versatile'')] \<and>
   emitted (on_transcript hi_there ''u1'' 1000
              (JObj [(''final'', JStr ''hello''), (''model'', JNull)]) Map.empty)
     = [Gpt_response (JStr ''hi there'') (JStr ''llama-3.1-70b-versatile'')] \<and>
   emitted (on_transcript hi_there ''u1'' 1000
              (JObj [(''final'', JStr ''hello''), (''model'', JStr [])]) Map.empty)
     = [Gpt_response (JStr ''hi there'') (JStr ''llama-3.1-70b-versatile'')]"
  using falsy_model_defaults [of "JObj [(''final'', JStr ''hello'')]" "''hello''" JUndefined
          "''u1''" 1000 Map.empty "[system_turn, hello]" "[''u1'' \<mapsto> Arr [system_turn, hello]]" hi_there]
        falsy_model_defaults [of "JObj [(''final'', JStr ''hello''), (''model'', JNull)]" "''hello''" JNull
          "''u1''" 1000 Map.empty "[system_turn, hello]" "[''u1'' \<mapsto> Arr [system_turn, hello]]" hi_there]
        falsy_model_defaults [of "JObj [(''final'', JStr ''hello''), (''model'', JStr [])]" "''hello''" "JStr []"
          "''u1''" 1000 Map.empty "[system_turn, hello]" "[''u1'' \<mapsto> Arr [system_turn, hello]]" hi_there]
  by (simp add: trim_hello manageConversationHistory_def Let_def hello_def
        handleGroqResponse_def hi_there_def and_then_def)

end
